theory Spec2Isabelle
  imports Main "HOL-Library.Word"
begin

unbundle bit_operations_syntax

section \<open>SecRandomCopyBytes.py: data, errors and the platform\<close>

text \<open>
  The script under \<^verbatim>\<open>Examples/SecRandomCopyBytes.py\<close>:
  \<^verbatim>\<open>
  import ctypes
  import os

  def get_random_bytes(n):
    buf = (ctypes.c_ubyte * n)()
    result = ctypes.cdll.LoadLibrary(ctypes.util.find_library("Security")).SecRandomCopyBytes(None, n, buf)
    if result != 0:
      raise ValueError("Failed to generate random bytes")
    return bytes(buf)

  random_bytes = get_random_bytes(8)  # Generate 64-bit random number
  print("Random 64-bit number: ", random_bytes.hex())
  \<close>
  A \<^verbatim>\<open>ctypes.c_ubyte\<close> is an 8-bit word, Python's \<^verbatim>\<open>int\<close> is \<^typ>\<open>int\<close>, a
  \<^verbatim>\<open>bytes\<close> value is a list of bytes. The array \<^verbatim>\<open>buf\<close> is a mutable object that
  the native function fills in place, so it lives in a heap of byte arrays and is passed
  by address; the heap only grows (no garbage collection is modelled).
\<close>

type_synonym byte = "8 word"

type_synonym addr = nat

text \<open>
  Exceptions are values. The script raises one itself, \<^verbatim>\<open>ValueError("Failed to generate
  random bytes")\<close>; the others come out of the \<^verbatim>\<open>ctypes\<close> calls it makes. Each carries
  its message.
\<close>

datatype error =
    ValueError string
  | OverflowError string
  | MemoryError string
  | AttributeError string
  | OSError string
  | ArgumentError string

text \<open>
  The native entry point \<^verbatim>\<open>int SecRandomCopyBytes(SecRandomRef rnd, size_t count, void *bytes)\<close>
  belongs to the operating system, not to the repository, so it is a parameter. Given the
  state of the system's entropy source, the generator reference (\<open>None\<close> is the null
  pointer), the count and the present contents of the buffer it is pointed at, it answers
  with its status, the bytes it has stored from the start of the buffer, and the next
  state of the entropy source. The count is the value that arrives at the native
  function: the script declares no \<^verbatim>\<open>argtypes\<close>, so \<^verbatim>\<open>ctypes\<close> passes the Python integer
  as a C \<^verbatim>\<open>int\<close>.
\<close>

type_synonym 'w native = "'w \<Rightarrow> nat option \<Rightarrow> int \<Rightarrow> byte list \<Rightarrow> int \<times> byte list \<times> 'w"

text \<open>
  What the interpreter and the operating system decide:
  \<^item> \<open>maxsize\<close> is \<^verbatim>\<open>sys.maxsize\<close>, the largest \<^verbatim>\<open>Py_ssize_t\<close>;
  \<^item> \<open>memory\<close> is the size in bytes of the largest array the allocator can serve;
  \<^item> \<open>find_library\<close> is the value of the expression \<^verbatim>\<open>ctypes.util.find_library\<close>: the
    function from a library name to its path (or \<^verbatim>\<open>None\<close>) when the submodule
    \<^verbatim>\<open>ctypes.util\<close> is loaded in the interpreter, and otherwise the message of the
    \<^verbatim>\<open>AttributeError\<close> that the attribute lookup raises (the script imports
    \<^verbatim>\<open>ctypes\<close> and \<^verbatim>\<open>os\<close> only);
  \<^item> \<open>LoadLibrary\<close> is \<^verbatim>\<open>ctypes.cdll.LoadLibrary\<close>: it raises \<^verbatim>\<open>OSError\<close> (\<open>Inl\<close> its
    message) or yields a library, whose attribute lookup by symbol name raises
    \<^verbatim>\<open>AttributeError\<close> (\<open>Inl\<close> its message) or yields the native function.
\<close>

record 'w platform =
  maxsize :: nat
  memory :: nat
  find_library :: "string + (string \<Rightarrow> string option)"
  LoadLibrary :: "string option \<Rightarrow> string + (string \<Rightarrow> string + 'w native)"

text \<open>
  The state the script runs in: the entropy source of the system (\<open>world\<close>), the
  libraries the process has loaded, in the order of the \<^verbatim>\<open>dlopen\<close> calls (\<^verbatim>\<open>ctypes\<close> never
  unloads one), the heap of \<^verbatim>\<open>ctypes\<close> arrays, the trace of the invocations of the native
  entry point made so far (each with the three arguments it received, the buffer by
  address, and the status it returned), the module's global variables that hold byte
  strings, and what has been written to standard output.
\<close>

type_synonym invocation = "(nat option \<times> int \<times> addr) \<times> int"

record 'w state =
  world :: 'w
  loaded :: "string option list"
  heap :: "byte list list"
  calls :: "invocation list"
  globals :: "string \<rightharpoonup> byte list"
  stdout :: string

section \<open>The array constructor\<close>

text \<open>Decimal rendering of an integer, as \<^verbatim>\<open>%zd\<close> and \<^verbatim>\<open>str\<close> give it.\<close>

fun digits :: "nat \<Rightarrow> string" where
  "digits n =
     (if n < 10 then [''0123456789'' ! n]
      else digits (n div 10) @ [''0123456789'' ! (n mod 10)])"

declare digits.simps [simp del]

definition str_int :: "int \<Rightarrow> string" where
  "str_int n = (if n < 0 then ''-'' @ digits (nat (- n)) else digits (nat n))"

text \<open>
  \<^verbatim>\<open>(ctypes.c_ubyte * n)()\<close>. The multiplication converts \<open>n\<close> to a \<^verbatim>\<open>Py_ssize_t\<close>
  (\<^verbatim>\<open>OverflowError\<close> when it does not fit), then refuses a negative length with
  \<^verbatim>\<open>ValueError\<close>; the call of the array type allocates \<open>n\<close> zero bytes, or raises
  \<^verbatim>\<open>MemoryError\<close> (which carries no message) when the allocator cannot serve them.
\<close>

definition c_ubyte_array :: "'w platform \<Rightarrow> int \<Rightarrow> error + byte list" where
  "c_ubyte_array env n =
     (if n < - int (maxsize env) - 1 \<or> int (maxsize env) < n
      then Inl (OverflowError ''cannot fit 'int' into an index-sized integer'')
      else if n < 0
      then Inl (ValueError (''Array length must be >= 0, not '' @ str_int n))
      else if memory env < nat n
      then Inl (MemoryError [])
      else Inr (replicate (nat n) 0))"

section \<open>The call\<close>

text \<open>
  The native function writes through the pointer it is given. The array keeps its length
  whatever is written: bytes stored from its start replace the ones there, up to the end
  of the array.
\<close>

definition fill :: "byte list \<Rightarrow> byte list \<Rightarrow> byte list" where
  "fill written buf = take (length buf) written @ drop (length written) buf"

text \<open>
  How \<^verbatim>\<open>ctypes\<close> converts the Python integer of the second argument (\<^verbatim>\<open>ConvParam\<close> in
  \<^verbatim>\<open>_ctypes\<close>): an integer that fits neither \<^verbatim>\<open>unsigned long\<close> nor \<^verbatim>\<open>long\<close> raises
  \<^verbatim>\<open>ctypes.ArgumentError\<close>; any other is cut down to a C \<^verbatim>\<open>int\<close>, that is to its low 32
  bits read as a signed number. On the systems that have the Security framework
  \<^verbatim>\<open>long\<close> is as wide as \<^verbatim>\<open>Py_ssize_t\<close>.
\<close>

definition c_int :: "int \<Rightarrow> int" where
  "c_int n = sint (word_of_int n :: 32 word)"

definition ConvParam :: "'w platform \<Rightarrow> int \<Rightarrow> error + int" where
  "ConvParam env n =
     (if n < - int (maxsize env) - 1 \<or> 2 * int (maxsize env) + 1 < n
      then Inl (ArgumentError ''argument 2: OverflowError: int too long to convert'')
      else Inr (c_int n))"

text \<open>
  \<^verbatim>\<open>get_random_bytes\<close>, statement by statement. Line 5 allocates the array at a fresh
  address. Line 6 evaluates \<^verbatim>\<open>ctypes.util.find_library("Security")\<close>, loads the library
  (which stays loaded), looks the symbol up, converts the arguments \<^verbatim>\<open>(None, n, buf)\<close> and
  calls the native function; each of the steps may raise. Lines 7 to 9 raise on a status
  other than zero and otherwise copy the array into a \<^verbatim>\<open>bytes\<close> value.
\<close>

definition get_random_bytes ::
  "'w platform \<Rightarrow> int \<Rightarrow> 'w state \<Rightarrow> (error + byte list) \<times> 'w state" where
  "get_random_bytes env n s =
     (case c_ubyte_array env n of
        Inl e \<Rightarrow> (Inl e, s)
      | Inr zeros \<Rightarrow>
          let buf = length (heap s);
              s1 = s\<lparr>heap := heap s @ [zeros]\<rparr>
          in (case find_library env of
                Inl msg \<Rightarrow> (Inl (AttributeError msg), s1)
              | Inr locate \<Rightarrow>
                  (case LoadLibrary env (locate ''Security'') of
                     Inl msg \<Rightarrow> (Inl (OSError msg), s1)
                   | Inr lib \<Rightarrow>
                       let s2 = s1\<lparr>loaded := loaded s1 @ [locate ''Security'']\<rparr>
                       in (case lib ''SecRandomCopyBytes'' of
                             Inl msg \<Rightarrow> (Inl (AttributeError msg), s2)
                           | Inr f \<Rightarrow>
                               (case ConvParam env n of
                                  Inl e \<Rightarrow> (Inl e, s2)
                                | Inr count \<Rightarrow>
                                    (case f (world s2) None count (heap s2 ! buf) of
                                       (result, written, w) \<Rightarrow>
                                         let s3 = s2\<lparr>world := w,
                                                    heap := (heap s2)[buf := fill written (heap s2 ! buf)],
                                                    calls := calls s2 @ [((None, count, buf), result)]\<rparr>
                                         in if result \<noteq> 0
                                            then (Inl (ValueError ''Failed to generate random bytes''), s3)
                                            else (Inr (heap s3 ! buf), s3)))))))"

text \<open>
  The native function that line 6 resolves, when every step before the call succeeds,
  and the path that line 6 hands to \<^verbatim>\<open>LoadLibrary\<close>.
\<close>

definition library :: "'w platform \<Rightarrow> string option" where
  "library env = (case find_library env of Inl msg \<Rightarrow> None | Inr locate \<Rightarrow> locate ''Security'')"

definition entry_point :: "'w platform \<Rightarrow> 'w native option" where
  "entry_point env =
     (case find_library env of
        Inl e \<Rightarrow> None
      | Inr locate \<Rightarrow>
          (case LoadLibrary env (locate ''Security'') of
             Inl e \<Rightarrow> None
           | Inr lib \<Rightarrow>
               (case lib ''SecRandomCopyBytes'' of
                  Inl e \<Rightarrow> None
                | Inr f \<Rightarrow> Some f)))"

section \<open>The script\<close>

text \<open>\<^verbatim>\<open>bytes.hex()\<close>: two lowercase hexadecimal digits for each byte, high nibble first.\<close>

definition hex_digit :: "byte \<Rightarrow> char" where
  "hex_digit d = ''0123456789abcdef'' ! unat d"

definition hex :: "byte list \<Rightarrow> string" where
  "hex bs = concat (map (\<lambda>b. [hex_digit (drop_bit 4 b), hex_digit (b AND 15)]) bs)"

text \<open>
  \<^verbatim>\<open>print\<close> with its default separator and end: the arguments joined by one space,
  then a newline.
\<close>

fun join :: "string \<Rightarrow> string list \<Rightarrow> string" where
  "join sep [] = []"
| "join sep [x] = x"
| "join sep (x # y # ys) = x @ sep @ join sep (y # ys)"

definition print :: "string list \<Rightarrow> string" where
  "print args = join '' '' args @ [CHR 0x0A]"

text \<open>
  Lines 11 and 12. An exception that leaves \<^verbatim>\<open>get_random_bytes\<close> is caught nowhere: the
  interpreter stops with it (\<open>Inl\<close>) and line 12 never runs. Otherwise the result is bound
  to the global \<^verbatim>\<open>random_bytes\<close> and the line is printed.
\<close>

definition main :: "'w platform \<Rightarrow> 'w state \<Rightarrow> (error + unit) \<times> 'w state" where
  "main env s =
     (case get_random_bytes env 8 s of
        (Inl e, s') \<Rightarrow> (Inl e, s')
      | (Inr random_bytes, s') \<Rightarrow>
          (Inr (),
           s'\<lparr>globals := (globals s')(''random_bytes'' \<mapsto> random_bytes),
              stdout := stdout s' @ print [''Random 64-bit number: '', hex random_bytes]\<rparr>))"

section \<open>Simulated platforms\<close>

text \<open>
  A 64-bit platform with 16 GiB to allocate from, on which the Security framework
  resolves to a given native function, and two native functions: one that succeeds and stores \<open>count\<close> bytes drawn from a counter, one
  that fails with \<^verbatim>\<open>errSecParam\<close> and stores nothing.
\<close>

definition darwin :: "'w native \<Rightarrow> 'w platform" where
  "darwin f =
     \<lparr>maxsize = 2 ^ 63 - 1,
      memory = 2 ^ 34,
      find_library = Inr (\<lambda>name.
        if name = ''Security''
        then Some ''/System/Library/Frameworks/Security.framework/Security''
        else None),
      LoadLibrary = (\<lambda>path.
        if path = Some ''/System/Library/Frameworks/Security.framework/Security''
        then Inr (\<lambda>symbol.
          if symbol = ''SecRandomCopyBytes'' then Inr f
          else Inl ''symbol not found'')
        else Inl ''image not found'')\<rparr>"

definition counting :: "nat native" where
  "counting w rnd count buf =
     (0, map (\<lambda>i. of_nat (w + 37 * i)) [0..<nat count], w + 1)"

definition failing :: "nat native" where
  "failing w rnd count buf = (- 50, [], w)"

text \<open>
  An interpreter in which nothing has imported the submodule \<^verbatim>\<open>ctypes.util\<close>: the attribute
  lookup on line 6 raises.
\<close>

definition bare :: "'w platform" where
  "bare =
     \<lparr>maxsize = 2 ^ 63 - 1,
      memory = 2 ^ 34,
      find_library = Inl (''module 'ctypes' has no attribute 'util'' @ [CHR 0x27]),
      LoadLibrary = (\<lambda>path. Inl ''image not found'')\<rparr>"

definition boot :: "nat state" where
  "boot = \<lparr>world = 171, loaded = [], heap = [], calls = [], globals = Map.empty, stdout = []\<rparr>"

section \<open>How a call goes\<close>

lemma length_fill: "length (fill written buf) = length buf"
  by (simp add: fill_def)

text \<open>
  A count below 2 to the power 31 reaches the native function as it is; a larger one does
  not. Line 5 has refused every \<open>n\<close> that \<^verbatim>\<open>ConvParam\<close> would refuse.
\<close>

lemma c_int_small:
  assumes "0 \<le> n" "n < 2 ^ 31"
  shows "c_int n = n"
  using assms by (simp add: c_int_def sint_sbintrunc' signed_take_bit_int_eq_self)

lemma c_int_zero: "c_int 0 = 0"
  by (simp add: c_int_def)

lemma c_int_eight: "c_int 8 = 8"
  by (simp add: c_int_small)

lemma c_int_truncates: "c_int (2 ^ 32 + 8) = 8" "c_int (2 ^ 63 - 1) = - 1"
  by (simp_all add: c_int_def)

lemma ConvParam_fits:
  assumes "0 \<le> n" "n \<le> int (maxsize env)"
  shows "ConvParam env n = Inr (c_int n)"
  using assms by (simp add: ConvParam_def)

lemma entry_point_darwin: "entry_point (darwin f) = Some f"
  by (simp add: entry_point_def darwin_def)

lemma library_darwin:
  "library (darwin f) = Some ''/System/Library/Frameworks/Security.framework/Security''"
  by (simp add: library_def darwin_def)

lemma maxsize_darwin: "maxsize (darwin f) = 2 ^ 63 - 1"
  by (simp add: darwin_def)

lemma memory_darwin: "memory (darwin f) = 2 ^ 34"
  by (simp add: darwin_def)



text \<open>
  The three ways through \<^const>\<open>get_random_bytes\<close>: the array constructor refuses \<open>n\<close>; the
  array is built but the entry point does not resolve; the native function is called.
\<close>

lemma get_random_bytes_refused:
  assumes "c_ubyte_array env n = Inl e"
  shows "get_random_bytes env n s = (Inl e, s)"
  using assms by (simp add: get_random_bytes_def)


lemma get_random_bytes_call:
  assumes "0 \<le> n" "n \<le> int (maxsize env)" "nat n \<le> memory env"
    and "entry_point env = Some f"
    and "f (world s) None (c_int n) (replicate (nat n) 0) = (st, written, w)"
  shows "get_random_bytes env n s =
          (if st \<noteq> 0 then Inl (ValueError ''Failed to generate random bytes'')
           else Inr (fill written (replicate (nat n) 0)),
           s\<lparr>world := w,
             loaded := loaded s @ [library env],
             heap := heap s @ [fill written (replicate (nat n) 0)],
             calls := calls s @ [((None, c_int n, length (heap s)), st)]\<rparr>)"
  using assms
  by (auto simp: get_random_bytes_def entry_point_def library_def c_ubyte_array_def
      ConvParam_def Let_def split: sum.splits)

text \<open>Runs on the simulated platforms.\<close>

lemma run_counting:
  "get_random_bytes (darwin counting) 8 boot =
     (Inr [171, 208, 245, 26, 63, 100, 137, 174],
      \<lparr>world = 172,
       loaded = [Some ''/System/Library/Frameworks/Security.framework/Security''],
       heap = [[171, 208, 245, 26, 63, 100, 137, 174]],
       calls = [((None, 8, 0), 0)], globals = Map.empty, stdout = []\<rparr>)"
  by (simp add: get_random_bytes_call [where f = counting and st = 0
        and written = "[171, 208, 245, 26, 63, 100, 137, 174]" and w = 172]
      entry_point_darwin library_darwin maxsize_darwin memory_darwin c_int_eight
      counting_def boot_def fill_def upt_rec)

lemma run_failing:
  "get_random_bytes (darwin failing) 8 boot =
     (Inl (ValueError ''Failed to generate random bytes''),
      \<lparr>world = 171,
       loaded = [Some ''/System/Library/Frameworks/Security.framework/Security''],
       heap = [replicate 8 0],
       calls = [((None, 8, 0), - 50)], globals = Map.empty, stdout = []\<rparr>)"
  by (simp add: get_random_bytes_call [where f = failing and st = "- 50"
        and written = "[]" and w = 171]
      entry_point_darwin library_darwin maxsize_darwin memory_darwin c_int_eight
      failing_def boot_def fill_def)

lemma run_failing_zero:
  "get_random_bytes (darwin failing) 0 boot =
     (Inl (ValueError ''Failed to generate random bytes''),
      \<lparr>world = 171,
       loaded = [Some ''/System/Library/Frameworks/Security.framework/Security''],
       heap = [[]], calls = [((None, 0, 0), - 50)],
       globals = Map.empty, stdout = []\<rparr>)"
  by (simp add: get_random_bytes_call [where f = failing and st = "- 50"
        and written = "[]" and w = 171]
      entry_point_darwin library_darwin maxsize_darwin c_int_zero failing_def boot_def fill_def)

lemma run_negative:
  "get_random_bytes (darwin counting) (- 1) boot =
     (Inl (ValueError ''Array length must be >= 0, not -1''), boot)"
  by (simp add: get_random_bytes_def c_ubyte_array_def maxsize_darwin str_int_def digits.simps)

lemma run_negative_eight:
  "get_random_bytes (darwin counting) (- 8) boot =
     (Inl (ValueError ''Array length must be >= 0, not -8''), boot)"
  by (simp add: get_random_bytes_def c_ubyte_array_def maxsize_darwin str_int_def digits.simps)

lemma run_exhausted:
  "get_random_bytes (darwin counting) (2 ^ 63 - 1) boot = (Inl (MemoryError []), boot)"
  by (simp add: get_random_bytes_def c_ubyte_array_def maxsize_darwin memory_darwin)

lemma run_bare:
  "get_random_bytes bare 8 boot =
     (Inl (AttributeError (''module 'ctypes' has no attribute 'util'' @ [CHR 0x27])),
      boot\<lparr>heap := [replicate 8 0]\<rparr>)"
  by (simp add: get_random_bytes_def c_ubyte_array_def bare_def boot_def)

lemma run_truncated:
  "calls (snd (get_random_bytes (darwin failing) (2 ^ 32 + 8) boot)) = [((None, 8, 0), - 50)]"
  by (simp add: get_random_bytes_call [where f = failing and st = "- 50"
        and written = "[]" and w = 171]
      entry_point_darwin maxsize_darwin memory_darwin c_int_def failing_def boot_def)

section \<open>Properties of \<^verbatim>\<open>get_random_bytes\<close>\<close>

text \<open>
  C1. For every non-negative \<open>n\<close>, whenever \<^verbatim>\<open>get_random_bytes(n)\<close> returns a value, that
  value is a byte sequence of length exactly \<open>n\<close>.
\<close>

theorem get_random_bytes_length:
  assumes "0 \<le> n" and "fst (get_random_bytes env n s) = Inr bs"
  shows "int (length bs) = n"
  using assms
  by (auto simp: get_random_bytes_def c_ubyte_array_def Let_def length_fill
      split: sum.splits prod.splits if_splits)

theorem get_random_bytes_length_witness:
  "(0::int) \<le> 8
   \<and> fst (get_random_bytes (darwin counting) 8 boot) = Inr [171, 208, 245, 26, 63, 100, 137, 174]
   \<and> int (length [171, 208, 245, 26, 63, 100, 137, 174 :: byte]) = 8"
  using get_random_bytes_length [of 8 "darwin counting" boot "[171, 208, 245, 26, 63, 100, 137, 174]"]
  by (simp add: run_counting)



text \<open>
  C3. Whenever the platform call returns a status other than zero, \<^verbatim>\<open>get_random_bytes\<close>
  raises its error and returns no value at all: neither the zero-initialised buffer nor
  one the platform has filled in part comes back as a result. The platform call is
  made when the buffer can be built and the entry point resolves; the count it receives
  is \<open>n\<close> as a C \<^verbatim>\<open>int\<close>.
\<close>

theorem get_random_bytes_failure:
  assumes "0 \<le> n" "n \<le> int (maxsize env)" "nat n \<le> memory env"
    and "entry_point env = Some f"
    and "fst (f (world s) None (c_int n) (replicate (nat n) 0)) \<noteq> 0"
  shows "fst (get_random_bytes env n s) = Inl (ValueError ''Failed to generate random bytes'')
         \<and> (\<forall>bs. fst (get_random_bytes env n s) \<noteq> Inr bs)"
proof -
  obtain st written w
    where f: "f (world s) None (c_int n) (replicate (nat n) 0) = (st, written, w)"
    by (cases "f (world s) None (c_int n) (replicate (nat n) 0)")
  with assms(5) have "st \<noteq> 0" by simp
  with get_random_bytes_call [OF assms(1-4) f] show ?thesis by simp
qed

theorem get_random_bytes_failure_witness:
  "(0::int) \<le> 8 \<and> 8 \<le> int (maxsize (darwin failing))
   \<and> nat 8 \<le> memory (darwin failing)
   \<and> entry_point (darwin failing) = Some failing
   \<and> fst (failing (world boot) None (c_int 8) (replicate (nat 8) 0)) \<noteq> 0
   \<and> fst (get_random_bytes (darwin failing) 8 boot)
       = Inl (ValueError ''Failed to generate random bytes'')
   \<and> fst (get_random_bytes (darwin failing) 8 boot) \<noteq> Inr (replicate 8 0)"
  using get_random_bytes_failure [of 8 "darwin failing" failing boot]
  by (simp add: entry_point_darwin maxsize_darwin memory_darwin failing_def)

text \<open>
  C4, as stated: \<^verbatim>\<open>get_random_bytes(0)\<close> succeeds without raising. It does not when the
  platform call reports a failure: the function has no path of its own for \<open>n = 0\<close> and
  raises as for any other count.
\<close>

theorem get_random_bytes_zero_counterexample:
  "fst (get_random_bytes (darwin failing) 0 boot)
     = Inl (ValueError ''Failed to generate random bytes'')
   \<and> fst (get_random_bytes (darwin failing) 0 boot) \<noteq> Inr []"
  by (simp add: run_failing_zero)

text \<open>
  C4, amended. The array constructor accepts \<open>n = 0\<close>, and whenever the entry point
  resolves and the platform call returns status zero, \<^verbatim>\<open>get_random_bytes(0)\<close> returns the
  empty byte sequence.
\<close>

theorem get_random_bytes_zero:
  assumes "entry_point env = Some f" and "fst (f (world s) None 0 []) = 0"
  shows "c_ubyte_array env 0 = Inr [] \<and> fst (get_random_bytes env 0 s) = Inr []"
proof -
  obtain st written w
    where f: "f (world s) None (c_int 0) (replicate (nat 0) 0) = (st, written, w)"
    by (cases "f (world s) None (c_int 0) (replicate (nat 0) 0)")
  with assms(2) have "st = 0" by (simp add: c_int_zero)
  with get_random_bytes_call [OF _ _ _ assms(1) f] show ?thesis
    by (simp add: fill_def c_ubyte_array_def)
qed

theorem get_random_bytes_zero_witness:
  "entry_point (darwin counting) = Some counting
   \<and> fst (counting (world boot) None 0 []) = 0
   \<and> fst (get_random_bytes (darwin counting) 0 boot) = Inr []"
  using get_random_bytes_zero [of "darwin counting" counting boot]
  by (simp add: entry_point_darwin counting_def)

text \<open>
  C5, as stated: for every \<open>n\<close> the platform primitive is invoked. For a negative \<open>n\<close> it is
  not: the array constructor raises on line 5 and the trace stays empty.
\<close>

theorem get_random_bytes_arguments_counterexample:
  "fst (get_random_bytes (darwin counting) (- 1) boot)
     = Inl (ValueError ''Array length must be >= 0, not -1'')
   \<and> calls (snd (get_random_bytes (darwin counting) (- 1) boot)) = []"
  by (simp add: run_negative) (simp add: boot_def)

text \<open>
  C5, amended. For every \<open>n\<close> from 0 up to, but not including, 2 to the power 31, and at
  most \<^verbatim>\<open>sys.maxsize\<close>, for which the buffer can be allocated and the entry point resolves,
  \<^verbatim>\<open>get_random_bytes(n)\<close> invokes the native function with exactly the three arguments
  \<^verbatim>\<open>None\<close>, \<open>n\<close> and the buffer it has just allocated, in this order; the buffer is a fresh
  heap object, holds \<open>n\<close> zero bytes when the call is made, and has length \<open>n\<close> afterwards.
  From 2 to the power 31 on, the count that arrives is \<open>n\<close> cut down to a C \<^verbatim>\<open>int\<close>, and
  where the allocation fails there is no invocation.
\<close>

theorem get_random_bytes_arguments:
  assumes "0 \<le> n" "n < 2 ^ 31" "n \<le> int (maxsize env)" "nat n \<le> memory env"
    and "entry_point env = Some f"
  shows "\<exists>st written w.
           f (world s) None n (replicate (nat n) 0) = (st, written, w)
           \<and> calls (snd (get_random_bytes env n s)) = calls s @ [((None, n, length (heap s)), st)]
           \<and> heap (snd (get_random_bytes env n s)) = heap s @ [fill written (replicate (nat n) 0)]
           \<and> int (length (heap (snd (get_random_bytes env n s)) ! length (heap s))) = n"
proof -
  have count: "c_int n = n"
    using assms(1,2) by (rule c_int_small)
  obtain st written w
    where f: "f (world s) None (c_int n) (replicate (nat n) 0) = (st, written, w)"
    by (cases "f (world s) None (c_int n) (replicate (nat n) 0)")
  from get_random_bytes_call [OF assms(1,3,4,5) f] f assms(1) show ?thesis
    by (simp add: count length_fill)
qed

theorem get_random_bytes_arguments_witness:
  "(0::int) \<le> 8 \<and> (8::int) < 2 ^ 31 \<and> 8 \<le> int (maxsize (darwin counting))
   \<and> nat 8 \<le> memory (darwin counting)
   \<and> entry_point (darwin counting) = Some counting
   \<and> calls (snd (get_random_bytes (darwin counting) 8 boot)) = [((None, 8, 0), 0)]
   \<and> length (heap boot) = 0
   \<and> int (length (heap (snd (get_random_bytes (darwin counting) 8 boot)) ! 0)) = 8"
  using get_random_bytes_arguments [of 8 "darwin counting" counting boot]
  by (simp add: entry_point_darwin maxsize_darwin memory_darwin run_counting) (simp add: boot_def)

text \<open>
  C8, as stated: for every \<open>n\<close> a call performs exactly one invocation of the platform
  primitive. For a negative \<open>n\<close> it performs none.
\<close>

theorem get_random_bytes_one_invocation_counterexample:
  "length (calls (snd (get_random_bytes (darwin counting) (- 8) boot))) = length (calls boot)
   \<and> length (calls (snd (get_random_bytes (darwin counting) (- 8) boot))) \<noteq> length (calls boot) + 1"
  by (simp add: run_negative_eight)

text \<open>
  C8, amended. For every \<open>n\<close> from 0 to \<^verbatim>\<open>sys.maxsize\<close> for which the buffer can be
  allocated and the entry point resolves, one call of \<^verbatim>\<open>get_random_bytes(n)\<close> adds
  exactly one invocation to the trace, whatever status comes back (no retry); a value it
  returns is what that invocation stored in the buffer (no other source of bytes); and
  a second call invokes the platform again (nothing is kept from the first).
\<close>

theorem get_random_bytes_one_invocation:
  assumes "0 \<le> n" "n \<le> int (maxsize env)" "nat n \<le> memory env"
    and "entry_point env = Some f"
  shows "length (calls (snd (get_random_bytes env n s))) = length (calls s) + 1
         \<and> take (length (calls s)) (calls (snd (get_random_bytes env n s))) = calls s
         \<and> (\<forall>bs. fst (get_random_bytes env n s) = Inr bs \<longrightarrow>
               bs = fill (fst (snd (f (world s) None (c_int n) (replicate (nat n) 0))))
                      (replicate (nat n) 0))
         \<and> length (calls (snd (get_random_bytes env n (snd (get_random_bytes env n s)))))
             = length (calls s) + 2"
proof -
  obtain st written w
    where f: "f (world s) None (c_int n) (replicate (nat n) 0) = (st, written, w)"
    by (cases "f (world s) None (c_int n) (replicate (nat n) 0)")
  note first = get_random_bytes_call [OF assms f]
  let ?s' = "snd (get_random_bytes env n s)"
  obtain st' written' w'
    where f': "f (world ?s') None (c_int n) (replicate (nat n) 0) = (st', written', w')"
    by (cases "f (world ?s') None (c_int n) (replicate (nat n) 0)")
  note second = get_random_bytes_call [OF assms f']
  have "length (calls (snd (get_random_bytes env n ?s'))) = length (calls ?s') + 1"
    by (simp add: second)
  with first show ?thesis
    by (simp add: f)
qed

theorem get_random_bytes_one_invocation_witness:
  "(0::int) \<le> 8 \<and> 8 \<le> int (maxsize (darwin failing))
   \<and> nat 8 \<le> memory (darwin failing)
   \<and> entry_point (darwin failing) = Some failing
   \<and> length (calls (snd (get_random_bytes (darwin failing) 8 boot))) = length (calls boot) + 1
   \<and> length (calls (snd (get_random_bytes (darwin failing) 8
                            (snd (get_random_bytes (darwin failing) 8 boot)))))
       = length (calls boot) + 2"
  using get_random_bytes_one_invocation [of 8 "darwin failing" failing boot]
  by (simp add: entry_point_darwin maxsize_darwin memory_darwin)




text \<open>
  C10. For every negative \<open>n\<close>, \<^verbatim>\<open>get_random_bytes(n)\<close> raises while it constructs the
  buffer and leaves the whole state, the trace of platform invocations included, as it
  found it: the platform primitive is never invoked.
\<close>

theorem get_random_bytes_negative:
  assumes "n < 0"
  shows "\<exists>e. c_ubyte_array env n = Inl e \<and> get_random_bytes env n s = (Inl e, s)"
proof -
  from assms obtain e where "c_ubyte_array env n = Inl e"
    by (cases "n < - int (maxsize env) - 1") (simp_all add: c_ubyte_array_def)
  then show ?thesis
    by (auto simp: get_random_bytes_refused)
qed

theorem get_random_bytes_negative_witness:
  "(- 1 :: int) < 0
   \<and> c_ubyte_array (darwin counting) (- 1) = Inl (ValueError ''Array length must be >= 0, not -1'')
   \<and> get_random_bytes (darwin counting) (- 1) boot
       = (Inl (ValueError ''Array length must be >= 0, not -1''), boot)"
  using get_random_bytes_negative [of "- 1" "darwin counting" boot]
  by (simp add: run_negative c_ubyte_array_def maxsize_darwin str_int_def digits.simps)

section \<open>Properties of the script\<close>

text \<open>
  The two digits of a byte: the high one is its value divided by 16, the low one the
  remainder, so each is below 16 and both together give the byte back.
\<close>

lemma unat_high_nibble: "unat (drop_bit 4 (b :: byte)) = unat b div 16"
  by (simp add: drop_bit_eq_div unat_div)

lemma unat_low_nibble: "unat ((b :: byte) AND 15) = unat b mod 16"
proof -
  have "(15 :: nat) = mask 4"
    by (simp add: mask_eq_exp_minus_1)
  then have "unat b AND 15 = take_bit 4 (unat b)"
    by (simp only: take_bit_eq_mask)
  then show ?thesis
    by (simp add: unsigned_and_eq take_bit_eq_mod)
qed

lemma nibbles: "unat (b :: byte) = 16 * unat (drop_bit 4 b) + unat (b AND 15)"
  by (simp add: unat_high_nibble unat_low_nibble)

lemma hex_digit_lower:
  assumes "unat d < 16"
  shows "hex_digit d \<in> set ''0123456789abcdef''"
proof -
  have "unat d < length ''0123456789abcdef''"
    using assms by simp
  from nth_mem [OF this] show ?thesis
    by (simp only: hex_digit_def)
qed

lemma hex_digit_high: "hex_digit (drop_bit 4 (b :: byte)) \<in> set ''0123456789abcdef''"
proof (rule hex_digit_lower)
  have "unat b < 2 ^ 8"
    using unsigned_less [of b] by simp
  then show "unat (drop_bit 4 b) < 16"
    by (simp add: unat_high_nibble)
qed

lemma hex_digit_low: "hex_digit ((b :: byte) AND 15) \<in> set ''0123456789abcdef''"
  by (rule hex_digit_lower) (simp add: unat_low_nibble)

lemma length_hex: "length (hex bs) = 2 * length bs"
  by (induction bs) (simp_all add: hex_def)

lemma set_hex: "set (hex bs) \<subseteq> set ''0123456789abcdef''"
proof (induction bs)
  case Nil
  show ?case by (simp add: hex_def)
next
  case (Cons b bs)
  have "hex (b # bs) = hex_digit (drop_bit 4 b) # hex_digit (b AND 15) # hex bs"
    by (simp add: hex_def)
  with Cons hex_digit_high [of b] hex_digit_low [of b] show ?case
    by simp
qed

lemma hex_run: "hex [171, 208, 245, 26, 63, 100, 137, 174] = ''abd0f51a3f6489ae''"
  by (simp add: hex_def hex_digit_def drop_bit_eq_div unat_div)

lemma main_counting:
  "main (darwin counting) boot =
     (Inr (),
      \<lparr>world = 172,
       loaded = [Some ''/System/Library/Frameworks/Security.framework/Security''],
       heap = [[171, 208, 245, 26, 63, 100, 137, 174]],
       calls = [((None, 8, 0), 0)],
       globals = [''random_bytes'' \<mapsto> [171, 208, 245, 26, 63, 100, 137, 174]],
       stdout = ''Random 64-bit number:  abd0f51a3f6489ae'' @ [CHR 0x0A]\<rparr>)"
  by (simp add: main_def run_counting print_def hex_run)

lemma main_failing:
  "main (darwin failing) boot =
     (Inl (ValueError ''Failed to generate random bytes''),
      \<lparr>world = 171,
       loaded = [Some ''/System/Library/Frameworks/Security.framework/Security''],
       heap = [replicate 8 0],
       calls = [((None, 8, 0), - 50)], globals = Map.empty, stdout = []\<rparr>)"
  by (simp add: main_def run_failing)

text \<open>
  C6. When the platform call for the eight bytes is made and returns status zero, the
  script ends normally and appends to standard output exactly one line: the label
  \<^verbatim>\<open>Random 64-bit number: \<close>, the separating space of \<^verbatim>\<open>print\<close>, and the hexadecimal
  encoding of the eight bytes that \<^verbatim>\<open>get_random_bytes\<close> returned, which is sixteen
  characters, each a decimal digit or a lowercase letter from a to f; the newline that
  ends the line is the only one written.
\<close>

theorem main_prints:
  assumes "8 \<le> maxsize env" "8 \<le> memory env" "entry_point env = Some f"
    and "fst (f (world s) None 8 (replicate 8 0)) = 0"
  shows "\<exists>bs. fst (get_random_bytes env 8 s) = Inr bs \<and> length bs = 8
           \<and> fst (main env s) = Inr ()
           \<and> stdout (snd (main env s))
               = stdout s @ ''Random 64-bit number: '' @ '' '' @ hex bs @ [CHR 0x0A]
           \<and> length (hex bs) = 16
           \<and> set (hex bs) \<subseteq> set ''0123456789abcdef''
           \<and> CHR 0x0A \<notin> set (''Random 64-bit number: '' @ '' '' @ hex bs)"
proof -
  obtain st written w
    where f: "f (world s) None (c_int 8) (replicate (nat 8) 0) = (st, written, w)"
    by (cases "f (world s) None (c_int 8) (replicate (nat 8) 0)")
  with assms(4) have st: "st = 0" by (simp add: c_int_eight)
  let ?bs = "fill written (replicate (nat 8) 0)"
  have run: "get_random_bytes env 8 s =
      (Inr ?bs, s\<lparr>world := w, loaded := loaded s @ [library env], heap := heap s @ [?bs],
                   calls := calls s @ [((None, 8, length (heap s)), 0)]\<rparr>)"
    using get_random_bytes_call [OF _ _ _ assms(3) f] assms(1,2) st by (simp add: c_int_eight)
  have len: "length ?bs = 8"
    by (simp add: length_fill)
  have lower: "set (hex ?bs) \<subseteq> set ''0123456789abcdef''"
    by (rule set_hex)
  then have "CHR 0x0A \<notin> set (hex ?bs)"
    by auto
  then have line: "CHR 0x0A \<notin> set (''Random 64-bit number: '' @ '' '' @ hex ?bs)"
    by simp
  have out: "stdout (snd (main env s))
      = stdout s @ ''Random 64-bit number: '' @ '' '' @ hex ?bs @ [CHR 0x0A]"
    by (simp add: main_def run print_def)
  have ok: "fst (main env s) = Inr ()"
    by (simp add: main_def run)
  have "length (hex ?bs) = 16"
    by (simp add: length_hex length_fill)
  with run len lower line out ok show ?thesis
    by (intro exI [of _ ?bs]) (simp add: length_fill)
qed

theorem main_prints_witness:
  "8 \<le> maxsize (darwin counting) \<and> 8 \<le> memory (darwin counting)
   \<and> entry_point (darwin counting) = Some counting
   \<and> fst (counting (world boot) None 8 (replicate 8 0)) = 0
   \<and> fst (main (darwin counting) boot) = Inr ()
   \<and> stdout (snd (main (darwin counting) boot))
       = ''Random 64-bit number:  abd0f51a3f6489ae'' @ [CHR 0x0A]"
  using main_prints [of "darwin counting" counting boot]
  by (simp add: entry_point_darwin maxsize_darwin memory_darwin main_counting counting_def)

text \<open>
  C7. When the platform call for the eight bytes is made and returns a status other than
  zero, the script ends with the uncaught \<^verbatim>\<open>ValueError\<close> and standard output is as it was: the line
  \<^verbatim>\<open>Random 64-bit number\<close> is not printed.
\<close>

theorem main_failure:
  assumes "8 \<le> maxsize env" "8 \<le> memory env" "entry_point env = Some f"
    and "fst (f (world s) None 8 (replicate 8 0)) \<noteq> 0"
  shows "fst (main env s) = Inl (ValueError ''Failed to generate random bytes'')
         \<and> stdout (snd (main env s)) = stdout s"
proof -
  obtain st written w
    where f: "f (world s) None (c_int 8) (replicate (nat 8) 0) = (st, written, w)"
    by (cases "f (world s) None (c_int 8) (replicate (nat 8) 0)")
  with assms(4) have "st \<noteq> 0" by (simp add: c_int_eight)
  with get_random_bytes_call [OF _ _ _ assms(3) f] assms(1,2) show ?thesis
    by (simp add: main_def c_int_eight)
qed

theorem main_failure_witness:
  "8 \<le> maxsize (darwin failing) \<and> 8 \<le> memory (darwin failing)
   \<and> entry_point (darwin failing) = Some failing
   \<and> fst (failing (world boot) None 8 (replicate 8 0)) \<noteq> 0
   \<and> fst (main (darwin failing) boot) = Inl (ValueError ''Failed to generate random bytes'')
   \<and> stdout (snd (main (darwin failing) boot)) = []"
  using main_failure [of "darwin failing" failing boot]
  by (simp add: entry_point_darwin maxsize_darwin memory_darwin main_failing failing_def)

end
